theory Spec2Isabelle
  imports Main
begin

section \<open>Data model\<close>

text \<open>
  An ObjectId is modelled by the number its twelve bytes denote, a date by its
  milliseconds since the epoch. \<^verbatim>\<open>user.id\<close> is the hex string of the requester's
  identifier and \<^verbatim>\<open>user._id\<close> the ObjectId object that carries it: both stand for
  the same identifier. Where the database or the array methods of the object mapper
  compare identifiers, they compare these values.
\<close>

type_synonym oid = nat
type_synonym date = int

text \<open>
  A stored document of the \<^verbatim>\<open>users\<close> collection is kept as the list of its top-level
  fields, so that a projection can be followed field by field.
\<close>

datatype val =
    Null
  | Str string
  | Num int
  | Bool bool
  | Oid oid
  | Date date
  | Arr "val list"
  | Doc "(string \<times> val) list"

type_synonym doc = "(string \<times> val) list"

text \<open>
  Modelled from the spec: the Track model (\<^verbatim>\<open>models/Track\<close>) is not among the sources.
  A track has an identity, a name, an image, an owning author, an owning playlist, the
  array of its likers and a creation time. The same record, with other field types,
  carries a document through an aggregation pipeline: \<open>'l\<close> is the type of
  \<^verbatim>\<open>liked\<close> (the liker array, or the requester's flag after \<^verbatim>\<open>$addFields\<close>),
  \<open>'a\<close> the type of \<^verbatim>\<open>author\<close> (a reference, the looked-up array, or one embedded
  summary) and \<open>'n\<close> the type of \<^verbatim>\<open>likedLength\<close> (\<open>unit\<close> while the field is absent).
\<close>

record ('l, 'a, 'n) row =
  rid :: oid
  name :: string
  img :: string
  author :: 'a
  playlist :: oid
  liked :: 'l
  likedLength :: 'n
  createdAt :: date

type_synonym track = "(oid list, oid, unit) row"

text \<open>
  Modelled from the spec: the Playlist model (\<^verbatim>\<open>models/Playlist\<close>) is not among the
  sources. A playlist has an identity, an image and the sequence of its track references.
\<close>

record playlist_doc =
  p_id :: oid
  p_img :: string
  p_tracks :: "oid list"

record db =
  tracks :: "track list"
  playlists :: "playlist_doc list"
  users :: "doc list"

text \<open>The authenticated requester, \<^verbatim>\<open>res.locals.user\<close>.\<close>

record requester =
  u_id :: oid
  role :: string

text \<open>
  \<^verbatim>\<open>ApplicationError(message, status)\<close> is what the handlers throw; \<open>StorageError\<close> is a
  pipeline the database rejects.
\<close>

datatype error = ApplicationError string nat | StorageError

section \<open>The database operations the handlers use\<close>

definition field :: "doc \<Rightarrow> string \<Rightarrow> val option" where
  "field d k = map_of d k"

definition findById :: "oid \<Rightarrow> ('l, 'a, 'n) row list \<Rightarrow> ('l, 'a, 'n) row option" where
  "findById i ts = find (\<lambda>t. rid t = i) ts"

definition findPlaylistById :: "oid \<Rightarrow> playlist_doc list \<Rightarrow> playlist_doc option" where
  "findPlaylistById i ps = find (\<lambda>p. p_id p = i) ps"

text \<open>
  \<^verbatim>\<open>doc.updateOne\<close> and \<^verbatim>\<open>doc.remove\<close> address the document by its \<^verbatim>\<open>_id\<close>, which is
  unique in a collection: they reach every entry that carries the identifier.
\<close>

definition updateOne :: "oid \<Rightarrow> (track \<Rightarrow> track) \<Rightarrow> track list \<Rightarrow> track list" where
  "updateOne i f ts = map (\<lambda>t. if rid t = i then f t else t) ts"

definition updatePlaylist ::
  "oid \<Rightarrow> (playlist_doc \<Rightarrow> playlist_doc) \<Rightarrow> playlist_doc list \<Rightarrow> playlist_doc list" where
  "updatePlaylist i f ps = map (\<lambda>p. if p_id p = i then f p else p) ps"

definition remove :: "oid \<Rightarrow> track list \<Rightarrow> track list" where
  "remove i ts = filter (\<lambda>t. rid t \<noteq> i) ts"

text \<open>The update operators \<^verbatim>\<open>$pull\<close>, \<^verbatim>\<open>$addToSet\<close> and \<^verbatim>\<open>$push\<close> on an array.\<close>

definition pull :: "'a \<Rightarrow> 'a list \<Rightarrow> 'a list" where
  "pull x xs = filter (\<lambda>y. y \<noteq> x) xs"

definition addToSet :: "'a \<Rightarrow> 'a list \<Rightarrow> 'a list" where
  "addToSet x xs = (if x \<in> set xs then xs else xs @ [x])"

definition push :: "'a \<Rightarrow> 'a list \<Rightarrow> 'a list" where
  "push x xs = xs @ [x]"

section \<open>Aggregation stages\<close>

text \<open>
  \<^verbatim>\<open>$addFields: { liked: { $in: [user, '$liked'] }, likedLength: { $size: '$liked' } }\<close>:
  both expressions read the liker array of the incoming document.
\<close>

definition addFields_liked ::
  "oid \<Rightarrow> (oid list, 'a, 'n) row list \<Rightarrow> (bool, 'a, nat) row list" where
  "addFields_liked uid ds =
     map (\<lambda>d. \<lparr>rid = rid d, name = name d, img = img d, author = author d,
               playlist = playlist d, liked = (uid \<in> set (liked d)),
               likedLength = length (liked d), createdAt = createdAt d\<rparr>) ds"

text \<open>\<^verbatim>\<open>$addFields: { liked: true }\<close>.\<close>

definition addFields_true ::
  "(oid list, 'a, 'n) row list \<Rightarrow> (bool, 'a, 'n) row list" where
  "addFields_true ds =
     map (\<lambda>d. \<lparr>rid = rid d, name = name d, img = img d, author = author d,
               playlist = playlist d, liked = True,
               likedLength = likedLength d, createdAt = createdAt d\<rparr>) ds"

text \<open>
  \<^verbatim>\<open>$lookup: { from: 'users', localField: 'author', foreignField: '_id', as: 'author' }\<close>:
  the author reference is replaced by the array of the user documents it names.
\<close>

definition lookup_author ::
  "doc list \<Rightarrow> ('l, oid, 'n) row list \<Rightarrow> ('l, doc list, 'n) row list" where
  "lookup_author us ds =
     map (\<lambda>d. \<lparr>rid = rid d, name = name d, img = img d,
               author = filter (\<lambda>u. field u ''_id'' = Some (Oid (author d))) us,
               playlist = playlist d, liked = liked d,
               likedLength = likedLength d, createdAt = createdAt d\<rparr>) ds"

text \<open>
  \<^verbatim>\<open>$project\<close> with exclusions only: the named fields are dropped from every element of
  the \<^verbatim>\<open>author\<close> array, every other field passes.
\<close>

definition excluded :: "string list" where
  "excluded = [''likedPlaylists'', ''likedTracks'', ''followers'', ''password'', ''email'']"

definition exclude :: "string list \<Rightarrow> doc \<Rightarrow> doc" where
  "exclude ks d = filter (\<lambda>kv. fst kv \<notin> set ks) d"

definition project_author ::
  "('l, doc list, 'n) row list \<Rightarrow> ('l, doc list, 'n) row list" where
  "project_author ds = map (\<lambda>d. d\<lparr>author := map (exclude excluded) (author d)\<rparr>) ds"

text \<open>
  \<^verbatim>\<open>$unwind: '$author'\<close>: one document for each element of the array, none for an empty
  array.
\<close>

definition unwind_author ::
  "('l, doc list, 'n) row list \<Rightarrow> ('l, doc, 'n) row list" where
  "unwind_author ds =
     concat (map (\<lambda>d. map (\<lambda>a. \<lparr>rid = rid d, name = name d, img = img d, author = a,
                                 playlist = playlist d, liked = liked d,
                                 likedLength = likedLength d, createdAt = createdAt d\<rparr>)
                           (author d)) ds)"

text \<open>
  \<^verbatim>\<open>$match: { liked: { $in: vs } }\<close> in the query language: an array field matches when
  one of its elements is one of the listed values.
\<close>

definition match_in :: "val list \<Rightarrow> val list \<Rightarrow> bool" where
  "match_in vs arr = (\<exists>v \<in> set vs. v \<in> set arr)"

text \<open>
  \<^verbatim>\<open>$sort\<close>: the documents are inserted one by one into the sorted result;
  \<open>ahead a b\<close> says that \<open>a\<close> may stand in front of \<open>b\<close>.
\<close>

fun insert_sorted :: "('a \<Rightarrow> 'a \<Rightarrow> bool) \<Rightarrow> 'a \<Rightarrow> 'a list \<Rightarrow> 'a list" where
  "insert_sorted ahead x [] = [x]"
| "insert_sorted ahead x (y # ys) =
     (if ahead x y then x # y # ys else y # insert_sorted ahead x ys)"

definition sort_stage :: "('a \<Rightarrow> 'a \<Rightarrow> bool) \<Rightarrow> 'a list \<Rightarrow> 'a list" where
  "sort_stage ahead ds = foldr (insert_sorted ahead) ds []"

text \<open>\<^verbatim>\<open>{ likedLength: -1, liked: -1, createdAt: -1 }\<close>; \<open>False < True\<close> on booleans.\<close>

definition by_likedLength_liked_createdAt ::
  "(bool, 'a, nat) row \<Rightarrow> (bool, 'a, nat) row \<Rightarrow> bool" where
  "by_likedLength_liked_createdAt a b =
     (likedLength b < likedLength a \<or>
      (likedLength a = likedLength b \<and>
        ((liked a \<and> \<not> liked b) \<or> (liked a = liked b \<and> createdAt b \<le> createdAt a))))"

text \<open>\<^verbatim>\<open>{ createdAt: -1 }\<close>.\<close>

definition by_createdAt :: "('l, 'a, 'n) row \<Rightarrow> ('l, 'a, 'n) row \<Rightarrow> bool" where
  "by_createdAt a b = (createdAt b \<le> createdAt a)"

section \<open>Numbers\<close>

text \<open>
  The numbers of the handlers are IEEE doubles. Those that arise from integers by
  conversion, subtraction and multiplication are the doubles with an integer value, the
  two infinities and NaN. The sign of zero is left out: it changes no answer here.
\<close>

datatype number = Fin int | PosInf | NegInf | NaN

text \<open>The number of binary digits of a positive integer.\<close>

function bit_length :: "int \<Rightarrow> nat" where
  "bit_length a = (if a \<le> 0 then 0 else Suc (bit_length (a div 2)))"
  by pat_completeness auto
termination
  by (relation "measure nat") auto

declare bit_length.simps [simp del]

text \<open>
  The double nearest to an integer, ties to the even significand: an integer below
  \<open>2 ^ 53\<close> in magnitude is a double; a larger one keeps its 53 leading bits, and
  overflows to an infinity from \<open>2 ^ 1024\<close> on.
\<close>

definition round_double :: "int \<Rightarrow> number" where
  "round_double n =
     (let a = \<bar>n\<bar> in
      if a < 2 ^ 53 then Fin n
      else
        (let e = bit_length a - 53;
             q = a div 2 ^ e;
             r = a mod 2 ^ e;
             q' = (if 2 ^ (e - 1) < r \<or> (r = 2 ^ (e - 1) \<and> odd q) then q + 1 else q);
             m = q' * 2 ^ e
         in if 2 ^ 1024 \<le> m then (if 0 < n then PosInf else NegInf)
            else Fin (if 0 < n then m else - m)))"

text \<open>
  A query parameter is a string; where it writes an integer, arithmetic converts it to
  the nearest double.
\<close>

definition to_number :: "int \<Rightarrow> number" where
  "to_number n = round_double n"

text \<open>The operators \<^verbatim>\<open>-\<close> and \<^verbatim>\<open>*\<close>: the exact result, rounded.\<close>

fun js_minus :: "number \<Rightarrow> number \<Rightarrow> number" where
  "js_minus NaN y = NaN"
| "js_minus x NaN = NaN"
| "js_minus (Fin a) (Fin b) = round_double (a - b)"
| "js_minus (Fin a) PosInf = NegInf"
| "js_minus (Fin a) NegInf = PosInf"
| "js_minus PosInf PosInf = NaN"
| "js_minus PosInf y = PosInf"
| "js_minus NegInf NegInf = NaN"
| "js_minus NegInf y = NegInf"

fun js_times :: "number \<Rightarrow> number \<Rightarrow> number" where
  "js_times NaN y = NaN"
| "js_times x NaN = NaN"
| "js_times (Fin a) (Fin b) = round_double (a * b)"
| "js_times (Fin a) PosInf = (if a = 0 then NaN else if 0 < a then PosInf else NegInf)"
| "js_times (Fin a) NegInf = (if a = 0 then NaN else if 0 < a then NegInf else PosInf)"
| "js_times PosInf (Fin b) = (if b = 0 then NaN else if 0 < b then PosInf else NegInf)"
| "js_times NegInf (Fin b) = (if b = 0 then NaN else if 0 < b then NegInf else PosInf)"
| "js_times PosInf PosInf = PosInf"
| "js_times PosInf NegInf = NegInf"
| "js_times NegInf PosInf = NegInf"
| "js_times NegInf NegInf = PosInf"

section \<open>Skipping and limiting\<close>

text \<open>
  \<^verbatim>\<open>$skip\<close> takes a number that is a non-negative 64-bit integer and \<^verbatim>\<open>$limit\<close> one
  that is a positive 64-bit integer; the database rejects the pipeline otherwise.
\<close>

definition skip_stage :: "number \<Rightarrow> 'a list \<Rightarrow> error + 'a list" where
  "skip_stage n ds =
     (case n of
        Fin k \<Rightarrow> if k < 0 \<or> 2 ^ 63 \<le> k then Inl StorageError else Inr (drop (nat k) ds)
      | _ \<Rightarrow> Inl StorageError)"

definition limit_stage :: "number \<Rightarrow> 'a list \<Rightarrow> error + 'a list" where
  "limit_stage n ds =
     (case n of
        Fin k \<Rightarrow> if k \<le> 0 \<or> 2 ^ 63 \<le> k then Inl StorageError else Inr (take (nat k) ds)
      | _ \<Rightarrow> Inl StorageError)"

definition skip_limit :: "number \<Rightarrow> number \<Rightarrow> 'a list \<Rightarrow> error + 'a list" where
  "skip_limit skip limit ds =
     (case skip_stage skip ds of Inl e \<Rightarrow> Inl e | Inr ds' \<Rightarrow> limit_stage limit ds')"

section \<open>The track listings\<close>

text \<open>
  The query parameters \<^verbatim>\<open>page\<close> and \<^verbatim>\<open>limit\<close> write integers when present;
  \<^verbatim>\<open>const { page = 1, limit = 10 } = req.query\<close> gives an absent one its default.
  \<^verbatim>\<open>(page - 1) * limit\<close> is computed on doubles, and \<^verbatim>\<open>+skip\<close> and \<^verbatim>\<open>+limit\<close> are
  the numbers that reach the pipeline.
\<close>

definition page_of :: "int option \<Rightarrow> int" where
  "page_of q = (case q of None \<Rightarrow> 1 | Some p \<Rightarrow> p)"

definition limit_of :: "int option \<Rightarrow> int" where
  "limit_of q = (case q of None \<Rightarrow> 10 | Some l \<Rightarrow> l)"

text \<open>The stages of \<^verbatim>\<open>getTracks\<close> in front of \<^verbatim>\<open>$skip\<close>.\<close>

definition getTracks_sorted :: "db \<Rightarrow> requester \<Rightarrow> (bool, doc, nat) row list" where
  "getTracks_sorted db user =
     sort_stage by_likedLength_liked_createdAt
       (unwind_author
         (project_author
           (lookup_author (users db)
             (addFields_liked (u_id user) (tracks db)))))"

definition getTracks ::
  "db \<Rightarrow> requester \<Rightarrow> int option \<Rightarrow> int option \<Rightarrow> error + (bool, doc, nat) row list" where
  "getTracks db user qpage qlimit =
     (let page = page_of qpage; limit = limit_of qlimit;
          skip = js_times (js_minus (to_number page) (Fin 1)) (to_number limit)
      in skip_limit skip (to_number limit) (getTracks_sorted db user))"

text \<open>The stages of \<^verbatim>\<open>getTracksInPlaylist\<close> in front of \<^verbatim>\<open>$skip\<close>.\<close>

definition getTracksInPlaylist_sorted ::
  "db \<Rightarrow> requester \<Rightarrow> oid \<Rightarrow> (bool, doc, nat) row list" where
  "getTracksInPlaylist_sorted db user i =
     sort_stage by_likedLength_liked_createdAt
       (unwind_author
         (project_author
           (lookup_author (users db)
             (addFields_liked (u_id user)
               (filter (\<lambda>d. playlist d = i) (tracks db))))))"

definition getTracksInPlaylist ::
  "db \<Rightarrow> requester \<Rightarrow> oid \<Rightarrow> int option \<Rightarrow> int option \<Rightarrow> error + (bool, doc, nat) row list" where
  "getTracksInPlaylist db user i qpage qlimit =
     (let page = page_of qpage; limit = limit_of qlimit;
          skip = js_times (js_minus (to_number page) (Fin 1)) (to_number limit)
      in skip_limit skip (to_number limit) (getTracksInPlaylist_sorted db user i))"

text \<open>
  The stages of \<^verbatim>\<open>getTracksLiked\<close> in front of \<^verbatim>\<open>$skip\<close>. The \<^verbatim>\<open>$match\<close> lists two
  values: the requester's identifier and the string \<^verbatim>\<open>'$liked'\<close>.
\<close>

definition getTracksLiked_sorted :: "db \<Rightarrow> requester \<Rightarrow> (bool, doc, unit) row list" where
  "getTracksLiked_sorted db user =
     sort_stage by_createdAt
       (unwind_author
         (project_author
           (lookup_author (users db)
             (addFields_true
               (filter (\<lambda>d. match_in [Oid (u_id user), Str ''$liked''] (map Oid (liked d)))
                  (tracks db))))))"

definition getTracksLiked ::
  "db \<Rightarrow> requester \<Rightarrow> int option \<Rightarrow> int option \<Rightarrow> error + (bool, doc, unit) row list" where
  "getTracksLiked db user qpage qlimit =
     (let page = page_of qpage; limit = limit_of qlimit;
          skip = js_times (js_minus (to_number page) (Fin 1)) (to_number limit)
      in skip_limit skip (to_number limit) (getTracksLiked_sorted db user))"

text \<open>
  The stages of \<^verbatim>\<open>getTracksByAuthor\<close> in front of \<^verbatim>\<open>$skip\<close>: here the fields are
  added after the author is unwound.
\<close>

definition getTracksByAuthor_sorted ::
  "db \<Rightarrow> requester \<Rightarrow> oid \<Rightarrow> (bool, doc, nat) row list" where
  "getTracksByAuthor_sorted db user i =
     sort_stage by_likedLength_liked_createdAt
       (addFields_liked (u_id user)
         (unwind_author
           (project_author
             (lookup_author (users db)
               (filter (\<lambda>d. author d = i) (tracks db))))))"

definition getTracksByAuthor ::
  "db \<Rightarrow> requester \<Rightarrow> oid \<Rightarrow> int option \<Rightarrow> int option \<Rightarrow> error + (bool, doc, nat) row list" where
  "getTracksByAuthor db user i qpage qlimit =
     (let page = page_of qpage; limit = limit_of qlimit;
          skip = js_times (js_minus (to_number page) (Fin 1)) (to_number limit)
      in skip_limit skip (to_number limit) (getTracksByAuthor_sorted db user i))"

section \<open>The track mutations\<close>

text \<open>
  A handler returns what it answers or throws, and the database it leaves. The request
  body's \<^verbatim>\<open>name\<close> is a string when present; \<open>new_id\<close> and \<open>now\<close> are the identifier
  and the creation time that \<^verbatim>\<open>Track.create\<close> gives the new document.

  \<^verbatim>\<open>!name || isEmpty(name)\<close> holds for a missing name and for the empty string, and
  then \<^verbatim>\<open>errors[0]\<close> is thrown before the playlist is looked up.
\<close>

definition postTrack ::
  "db \<Rightarrow> requester \<Rightarrow> oid \<Rightarrow> string option \<Rightarrow> oid \<Rightarrow> date \<Rightarrow> (error + track) \<times> db" where
  "postTrack db user i qname new_id now =
     (case (case qname of None \<Rightarrow> None | Some n \<Rightarrow> if n = [] then None else Some n) of
        None \<Rightarrow> (Inl (ApplicationError ''Name is not valid'' 404), db)
      | Some n \<Rightarrow>
         (case findPlaylistById i (playlists db) of
            None \<Rightarrow> (Inl (ApplicationError ''Playlist not found'' 404), db)
          | Some pl \<Rightarrow>
             (let track = \<lparr>rid = new_id, name = n, img = p_img pl, author = u_id user,
                           playlist = p_id pl, liked = [], likedLength = (),
                           createdAt = now\<rparr>
              in (Inr track,
                  db\<lparr>tracks := tracks db @ [track],
                     playlists := updatePlaylist (p_id pl)
                        (\<lambda>p. p\<lparr>p_tracks := push (rid track) (p_tracks p)\<rparr>) (playlists db)\<rparr>))))"

text \<open>
  \<^verbatim>\<open>track.liked.includes(user._id)\<close> asks whether the requester's identifier is in the
  liker array; \<open>was_liked\<close> is the handler's \<^verbatim>\<open>liked\<close>.
\<close>

definition putTrackLike :: "db \<Rightarrow> requester \<Rightarrow> oid \<Rightarrow> (error + bool) \<times> db" where
  "putTrackLike db user i =
     (case findById i (tracks db) of
        None \<Rightarrow> (Inl (ApplicationError ''Track not found'' 404), db)
      | Some track \<Rightarrow>
         (let was_liked = (u_id user \<in> set (liked track))
          in (Inr (\<not> was_liked),
              if was_liked
              then db\<lparr>tracks := updateOne (rid track)
                        (\<lambda>t. t\<lparr>liked := pull (u_id user) (liked t)\<rparr>) (tracks db)\<rparr>
              else db\<lparr>tracks := updateOne (rid track)
                        (\<lambda>t. t\<lparr>liked := addToSet (u_id user) (liked t)\<rparr>) (tracks db)\<rparr>)))"

text \<open>
  \<^verbatim>\<open>track.author != user._id\<close> is the operator \<^verbatim>\<open>!=\<close> on two ObjectId objects, and
  on objects it compares identity: the author of the document that \<^verbatim>\<open>findById\<close> has
  just built and the \<^verbatim>\<open>_id\<close> of the requester are two objects, whatever identifiers
  they carry.
\<close>

definition not_same_object :: "oid \<Rightarrow> oid \<Rightarrow> bool" where
  "not_same_object a b = True"

text \<open>
  The handler removes the track document only: the playlist keeps the reference.
\<close>

definition deleteTrack :: "db \<Rightarrow> requester \<Rightarrow> oid \<Rightarrow> (error + track) \<times> db" where
  "deleteTrack db user i =
     (case findById i (tracks db) of
        None \<Rightarrow> (Inl (ApplicationError ''Playlist not found'' 404), db)
      | Some track \<Rightarrow>
         (if not_same_object (author track) (u_id user) \<and> role user \<noteq> ''ADMIN''
          then (Inl (ApplicationError ''Dont have permission'' 403), db)
          else (Inr track, db\<lparr>tracks := remove (rid track) (tracks db)\<rparr>)))"

section \<open>The avatar of a user\<close>

text \<open>
  \<^verbatim>\<open>gravatar\<close>. The MD5 digest in hexadecimal and the rendering of a number in a
  template string are parameters; \<open>email\<close> is the user's \<^verbatim>\<open>email\<close> field and \<open>qsize\<close>
  the optional argument, of whatever type the numbers have. An absent size is the
  number 200, which a template string renders as \<^verbatim>\<open>200\<close>. \<^verbatim>\<open>!this.email\<close> holds for
  an absent email and for the empty string.
\<close>

definition gravatar ::
  "(string \<Rightarrow> string) \<Rightarrow> ('n \<Rightarrow> string) \<Rightarrow> string option \<Rightarrow> 'n option \<Rightarrow> string" where
  "gravatar md5hex to_string email qsize =
     (let size = (case qsize of None \<Rightarrow> ''200'' | Some s \<Rightarrow> to_string s)
      in case (case email of None \<Rightarrow> None | Some e \<Rightarrow> if e = [] then None else Some e) of
           None \<Rightarrow> ''https://gravatar.com/avatar/?s='' @ size @ ''&d=retro''
         | Some e \<Rightarrow>
             ''https://gravatar.com/avatar/'' @ md5hex e @ ''?s='' @ size @ ''&d=retro'')"

section \<open>What the spec calls public\<close>

text \<open>
  Following the spec's words, "only public profile fields are exposed": the fields of a
  user document that are its identity, its profile (name, gender, location, website,
  picture) and the bookkeeping of the document. The password, the email, the
  password-reset token and its expiry are not among them.
\<close>

definition public_profile_fields :: "string list" where
  "public_profile_fields = [''_id'', ''profile'', ''createdAt'', ''updatedAt'', ''__v'']"

section \<open>Example data\<close>

text \<open>
  Two users, two playlists and four tracks; the requester is the first user. The
  theorems below are applied to this database.
\<close>

definition alice_doc :: doc where
  "alice_doc =
     [(''_id'', Oid 1), (''email'', Str ''alice@example.org''),
      (''password'', Str ''$2a$10$hash''), (''passwordResetToken'', Str ''5f3c''),
      (''profile'', Doc [(''name'', Str ''Alice'')]), (''followers'', Arr [Oid 2])]"

definition bob_doc :: doc where
  "bob_doc =
     [(''_id'', Oid 2), (''email'', Str ''bob@example.org''),
      (''password'', Str ''$2a$10$other''), (''profile'', Doc [(''name'', Str ''Bob'')]),
      (''followers'', Arr []), (''likedTracks'', Arr [Oid 10]),
      (''likedPlaylists'', Arr [])]"

definition example_db :: db where
  "example_db =
     \<lparr>tracks =
        [\<lparr>rid = 10, name = ''one'', img = ''a.png'', author = 1, playlist = 100,
          liked = [2], likedLength = (), createdAt = 1000\<rparr>,
         \<lparr>rid = 11, name = ''two'', img = ''a.png'', author = 2, playlist = 100,
          liked = [1], likedLength = (), createdAt = 2000\<rparr>,
         \<lparr>rid = 12, name = ''three'', img = ''b.png'', author = 1, playlist = 101,
          liked = [], likedLength = (), createdAt = 3000\<rparr>,
         \<lparr>rid = 13, name = ''four'', img = ''a.png'', author = 2, playlist = 100,
          liked = [2, 1], likedLength = (), createdAt = 500\<rparr>],
      playlists =
        [\<lparr>p_id = 100, p_img = ''a.png'', p_tracks = [10, 11, 13]\<rparr>,
         \<lparr>p_id = 101, p_img = ''b.png'', p_tracks = [12]\<rparr>],
      users = [alice_doc, bob_doc]\<rparr>"

definition alice :: requester where
  "alice = \<lparr>u_id = 1, role = ''USER''\<rparr>"

text \<open>
  A stand-in for the MD5 digest where a theorem is applied to a concrete email: it
  gives two addresses their digests.
\<close>

definition md5_sample :: "string \<Rightarrow> string" where
  "md5_sample e =
     (if e = ''alice@example.org'' then ''fbf7c6aec1d4280b7c2704c1c0478bd6''
      else if e = ''Alice@example.org'' then ''2c2db9578d01ea65795ee8212989d562''
      else [])"

text \<open>
  A stand-in for the rendering of a number in a template string, for the one size the
  theorem on the avatar is applied to.
\<close>

definition size_sample :: "int \<Rightarrow> string" where
  "size_sample n = (if n = 64 then ''64'' else [])"

section \<open>Facts on sorting, skipping and limiting\<close>

lemma set_insert_sorted: "set (insert_sorted ahead x xs) = insert x (set xs)"
  by (induction xs) auto

lemma set_sort_stage: "set (sort_stage ahead xs) = set xs"
  unfolding sort_stage_def by (induction xs) (simp_all add: set_insert_sorted)

lemma length_insert_sorted: "length (insert_sorted ahead x xs) = Suc (length xs)"
  by (induction xs) auto

lemma length_sort_stage: "length (sort_stage ahead xs) = length xs"
  unfolding sort_stage_def by (induction xs) (simp_all add: length_insert_sorted)

lemma sorted_insert_sorted:
  assumes total: "\<And>a b. ahead a b \<or> ahead b a"
    and trans: "\<And>a b c. ahead a b \<Longrightarrow> ahead b c \<Longrightarrow> ahead a c"
    and srt: "sorted_wrt ahead xs"
  shows "sorted_wrt ahead (insert_sorted ahead x xs)"
  using srt
proof (induction xs)
  case Nil
  show ?case by simp
next
  case (Cons y ys)
  show ?case
  proof (cases "ahead x y")
    case True
    with Cons.prems trans show ?thesis by auto
  next
    case False
    with total have "ahead y x" by blast
    with Cons False show ?thesis by (auto simp: set_insert_sorted)
  qed
qed

lemma sorted_sort_stage:
  assumes total: "\<And>a b. ahead a b \<or> ahead b a"
    and trans: "\<And>a b c. ahead a b \<Longrightarrow> ahead b c \<Longrightarrow> ahead a c"
  shows "sorted_wrt ahead (sort_stage ahead xs)"
  unfolding sort_stage_def
  by (induction xs) (simp_all add: sorted_insert_sorted [OF total trans])

lemma ranked_total: "by_likedLength_liked_createdAt a b \<or> by_likedLength_liked_createdAt b a"
  unfolding by_likedLength_liked_createdAt_def by (cases "liked a"; cases "liked b") auto

lemma ranked_trans:
  "by_likedLength_liked_createdAt a b \<Longrightarrow> by_likedLength_liked_createdAt b c \<Longrightarrow>
   by_likedLength_liked_createdAt a c"
  unfolding by_likedLength_liked_createdAt_def by (cases "liked a"; cases "liked b"; cases "liked c") auto

lemma skip_limit_Inr:
  "skip_limit s l xs = Inr ys \<Longrightarrow> \<exists>k m. ys = take m (drop k xs)"
  by (auto simp: skip_limit_def skip_stage_def limit_stage_def
      split: if_splits sum.splits number.splits)

lemma round_double_exact: "\<bar>n\<bar> < 2 ^ 53 \<Longrightarrow> round_double n = Fin n"
  by (simp add: round_double_def)


lemmas listing_defs =
  getTracks_def getTracksInPlaylist_def getTracksLiked_def getTracksByAuthor_def
  getTracks_sorted_def getTracksInPlaylist_sorted_def getTracksLiked_sorted_def
  getTracksByAuthor_sorted_def page_of_def limit_of_def to_number_def round_double_exact
  skip_limit_def skip_stage_def
  limit_stage_def sort_stage_def unwind_author_def project_author_def lookup_author_def
  addFields_liked_def addFields_true_def exclude_def excluded_def field_def
  by_likedLength_liked_createdAt_def by_createdAt_def match_in_def

lemmas example_defs = example_db_def alice_def alice_doc_def bob_doc_def

lemma ranked_origin:
  assumes "r \<in> set (getTracks_sorted db user) \<or> r \<in> set (getTracksInPlaylist_sorted db user i)
           \<or> r \<in> set (getTracksByAuthor_sorted db user i)"
  shows "\<exists>t \<in> set (tracks db). rid t = rid r \<and> likedLength r = length (liked t) \<and>
           (distinct (liked t) \<longrightarrow> likedLength r = card (set (liked t))) \<and>
           liked r = (u_id user \<in> set (liked t)) \<and> createdAt r = createdAt t"
  using assms
  unfolding getTracks_sorted_def getTracksInPlaylist_sorted_def getTracksByAuthor_sorted_def
    set_sort_stage unwind_author_def project_author_def lookup_author_def addFields_liked_def
  by (auto simp: distinct_card)

lemma sorted_ranked:
  "sorted_wrt by_likedLength_liked_createdAt (sort_stage by_likedLength_liked_createdAt xs)"
  by (rule sorted_sort_stage [OF ranked_total ranked_trans])

lemma ranked_sorted:
  "sorted_wrt by_likedLength_liked_createdAt (getTracks_sorted db user)"
  "sorted_wrt by_likedLength_liked_createdAt (getTracksInPlaylist_sorted db user i)"
  "sorted_wrt by_likedLength_liked_createdAt (getTracksByAuthor_sorted db user i)"
  unfolding getTracks_sorted_def getTracksInPlaylist_sorted_def getTracksByAuthor_sorted_def
  by (rule sorted_ranked)+

lemma page_ranked:
  assumes "getTracks db user qpage qlimit = Inr rows
           \<or> getTracksInPlaylist db user i qpage qlimit = Inr rows
           \<or> getTracksByAuthor db user i qpage qlimit = Inr rows"
  shows "sorted_wrt by_likedLength_liked_createdAt rows"
    and "set rows \<subseteq> set (getTracks_sorted db user) \<or> set rows \<subseteq> set (getTracksInPlaylist_sorted db user i)
           \<or> set rows \<subseteq> set (getTracksByAuthor_sorted db user i)"
proof -
  from assms obtain full s l where full:
      "full = getTracks_sorted db user \<or> full = getTracksInPlaylist_sorted db user i
       \<or> full = getTracksByAuthor_sorted db user i"
    and sl: "skip_limit s l full = Inr rows"
    unfolding getTracks_def getTracksInPlaylist_def getTracksByAuthor_def Let_def by blast
  from skip_limit_Inr [OF sl] obtain k m where rows: "rows = take m (drop k full)" by blast
  from full ranked_sorted have "sorted_wrt by_likedLength_liked_createdAt full" by auto
  then show "sorted_wrt by_likedLength_liked_createdAt rows"
    unfolding rows by simp
  have "set rows \<subseteq> set full"
    unfolding rows by (meson set_take_subset set_drop_subset subset_trans)
  with full show "set rows \<subseteq> set (getTracks_sorted db user) \<or> set rows \<subseteq> set (getTracksInPlaylist_sorted db user i)
           \<or> set rows \<subseteq> set (getTracksByAuthor_sorted db user i)" by auto
qed

section \<open>Ranking of the listings\<close>

text \<open>
  Claim C1. A page of the global, the playlist-scoped or the author-scoped listing is
  ranked: every returned document carries the like count (the length of the liker array,
  which is the size of the liker set when no liker is stored twice) and the requester's
  flag of a stored track; a document with more likes stands in front of one with fewer;
  at equal like counts a document the requester liked stands in front of one the
  requester did not like; at equal like counts and equal flags the newer document stands
  in front.
\<close>

theorem listings_ranked:
  assumes "getTracks db user qpage qlimit = Inr rows
           \<or> getTracksInPlaylist db user i qpage qlimit = Inr rows
           \<or> getTracksByAuthor db user i qpage qlimit = Inr rows"
  shows "(\<forall>r \<in> set rows. \<exists>t \<in> set (tracks db). rid t = rid r \<and>
             likedLength r = length (liked t) \<and>
             (distinct (liked t) \<longrightarrow> likedLength r = card (set (liked t))) \<and>
             liked r = (u_id user \<in> set (liked t)) \<and> createdAt r = createdAt t) \<and>
         (\<forall>m n. m < length rows \<and> n < length rows \<and>
             likedLength (rows ! n) < likedLength (rows ! m) \<longrightarrow> m < n) \<and>
         (\<forall>m n. m < length rows \<and> n < length rows \<and>
             likedLength (rows ! m) = likedLength (rows ! n) \<and>
             liked (rows ! m) \<and> \<not> liked (rows ! n) \<longrightarrow> m < n) \<and>
         (\<forall>m n. m < length rows \<and> n < length rows \<and>
             likedLength (rows ! m) = likedLength (rows ! n) \<and>
             liked (rows ! m) = liked (rows ! n) \<and>
             createdAt (rows ! n) < createdAt (rows ! m) \<longrightarrow> m < n)"
proof -
  note srt = page_ranked(1) [OF assms]
  have ord: "by_likedLength_liked_createdAt (rows ! n) (rows ! m)"
    if "n < m" "m < length rows" for m n
    using srt that by (simp add: sorted_wrt_iff_nth_less)
  have origin: "\<forall>r \<in> set rows. \<exists>t \<in> set (tracks db). rid t = rid r \<and>
             likedLength r = length (liked t) \<and>
             (distinct (liked t) \<longrightarrow> likedLength r = card (set (liked t))) \<and>
             liked r = (u_id user \<in> set (liked t)) \<and> createdAt r = createdAt t"
    using page_ranked(2) [OF assms] ranked_origin [of _ db user i] by blast
  have a: "m < n" if "m < length rows" "n < length rows"
      "likedLength (rows ! n) < likedLength (rows ! m)" for m n
  proof (rule ccontr)
    assume "\<not> m < n"
    with that have "n < m" by (cases "m = n") auto
    from ord [OF this that(1)] that(3) show False
      by (auto simp: by_likedLength_liked_createdAt_def)
  qed
  have b: "m < n" if "m < length rows" "n < length rows"
      "likedLength (rows ! m) = likedLength (rows ! n)" "liked (rows ! m)" "\<not> liked (rows ! n)"
    for m n
  proof (rule ccontr)
    assume "\<not> m < n"
    with that have "n < m" by (cases "m = n") auto
    from ord [OF this that(1)] that(3,4,5) show False
      by (auto simp: by_likedLength_liked_createdAt_def)
  qed
  have c: "m < n" if "m < length rows" "n < length rows"
      "likedLength (rows ! m) = likedLength (rows ! n)" "liked (rows ! m) = liked (rows ! n)"
      "createdAt (rows ! n) < createdAt (rows ! m)"
    for m n
  proof (rule ccontr)
    assume "\<not> m < n"
    with that have "n < m" by (cases "m = n") auto
    from ord [OF this that(1)] that(3,4,5) show False
      by (auto simp: by_likedLength_liked_createdAt_def)
  qed
  show ?thesis
  proof (intro conjI allI impI)
    show "\<forall>r \<in> set rows. \<exists>t \<in> set (tracks db). rid t = rid r \<and>
             likedLength r = length (liked t) \<and>
             (distinct (liked t) \<longrightarrow> likedLength r = card (set (liked t))) \<and>
             liked r = (u_id user \<in> set (liked t)) \<and> createdAt r = createdAt t" by (rule origin)
  qed (use a b c in blast)+
qed

theorem listings_ranked_witness:
  "\<exists>rows. getTracks example_db alice None None = Inr rows \<and>
     map rid rows = [13, 11, 10, 12] \<and>
     map likedLength rows = [2, 1, 1, 0] \<and>
     map liked rows = [True, True, False, False] \<and>
     (\<forall>m n. m < length rows \<and> n < length rows \<and>
        likedLength (rows ! n) < likedLength (rows ! m) \<longrightarrow> m < n)"
proof -
  let ?rows = "projr (getTracks example_db alice None None)"
  have h: "getTracks example_db alice None None = Inr ?rows"
    by (simp add: listing_defs example_defs)
  have v: "map rid ?rows = [13, 11, 10, 12]" "map likedLength ?rows = [2, 1, 1, 0]"
      "map liked ?rows = [True, True, False, False]"
    by (simp_all add: listing_defs example_defs)
  note ranked = listings_ranked [of example_db alice None None ?rows, OF disjI1 [OF h]]
  have a: "\<forall>m n. m < length ?rows \<and> n < length ?rows \<and>
        likedLength (?rows ! n) < likedLength (?rows ! m) \<longrightarrow> m < n"
    by (rule conjunct1 [OF conjunct2 [OF ranked]])
  show ?thesis
    using h v a by - (rule exI [of _ ?rows], intro conjI, assumption+)
qed


section \<open>The liked-only listing\<close>

lemma created_total: "by_createdAt a b \<or> by_createdAt b a"
  unfolding by_createdAt_def by auto

lemma created_trans: "by_createdAt a b \<Longrightarrow> by_createdAt b c \<Longrightarrow> by_createdAt a c"
  unfolding by_createdAt_def by auto

lemma sorted_created: "sorted_wrt by_createdAt (sort_stage by_createdAt xs)"
  by (rule sorted_sort_stage [OF created_total created_trans])

lemma liked_origin:
  assumes "r \<in> set (getTracksLiked_sorted db user)"
  shows "liked r \<and> (\<exists>t \<in> set (tracks db). rid t = rid r \<and> createdAt r = createdAt t \<and>
           u_id user \<in> set (liked t))"
  using assms
  unfolding getTracksLiked_sorted_def set_sort_stage unwind_author_def project_author_def
    lookup_author_def addFields_true_def match_in_def
  by auto

text \<open>
  Claim C2. Every document of a page of the liked-only listing stands for a stored track
  whose liker array holds the requester, and carries the flag \<open>True\<close>; a newer document
  stands in front of an older one. The only sort key is the creation time: such a
  document has no like count.
\<close>

theorem liked_listing:
  assumes "getTracksLiked db user qpage qlimit = Inr rows"
  shows "(\<forall>r \<in> set rows. liked r \<and>
            (\<exists>t \<in> set (tracks db). rid t = rid r \<and> createdAt r = createdAt t \<and>
               u_id user \<in> set (liked t))) \<and>
         (\<forall>m n. m < length rows \<and> n < length rows \<and>
            createdAt (rows ! n) < createdAt (rows ! m) \<longrightarrow> m < n)"
proof -
  from assms obtain s l where sl: "skip_limit s l (getTracksLiked_sorted db user) = Inr rows"
    unfolding getTracksLiked_def Let_def by blast
  from skip_limit_Inr [OF sl]
  obtain k m where rows: "rows = take m (drop k (getTracksLiked_sorted db user))" by blast
  have "sorted_wrt by_createdAt (getTracksLiked_sorted db user)"
    unfolding getTracksLiked_sorted_def by (rule sorted_created)
  then have srt: "sorted_wrt by_createdAt rows"
    unfolding rows by simp
  have sub: "set rows \<subseteq> set (getTracksLiked_sorted db user)"
    unfolding rows by (meson set_take_subset set_drop_subset subset_trans)
  have origin: "\<forall>r \<in> set rows. liked r \<and>
      (\<exists>t \<in> set (tracks db). rid t = rid r \<and> createdAt r = createdAt t \<and>
         u_id user \<in> set (liked t))"
    using sub liked_origin [of _ db user] by blast
  have newest: "m < n" if "m < length rows" "n < length rows"
      "createdAt (rows ! n) < createdAt (rows ! m)" for m n
  proof (rule ccontr)
    assume "\<not> m < n"
    with that have "n < m" by (cases "m = n") auto
    with srt that(1) have "by_createdAt (rows ! n) (rows ! m)"
      by (simp add: sorted_wrt_iff_nth_less)
    with that(3) show False by (simp add: by_createdAt_def)
  qed
  show ?thesis
  proof (intro conjI allI impI)
    show "\<forall>r \<in> set rows. liked r \<and>
      (\<exists>t \<in> set (tracks db). rid t = rid r \<and> createdAt r = createdAt t \<and>
         u_id user \<in> set (liked t))" by (rule origin)
  qed (use newest in blast)
qed

theorem liked_listing_witness:
  "\<exists>rows. getTracksLiked example_db alice None None = Inr rows \<and>
     map rid rows = [11, 13] \<and> map createdAt rows = [2000, 500] \<and>
     (\<forall>m n. m < length rows \<and> n < length rows \<and>
        createdAt (rows ! n) < createdAt (rows ! m) \<longrightarrow> m < n)"
proof -
  let ?rows = "projr (getTracksLiked example_db alice None None)"
  have h: "getTracksLiked example_db alice None None = Inr ?rows"
    by (simp add: listing_defs example_defs)
  have v: "map rid ?rows = [11, 13]" "map createdAt ?rows = [2000, 500]"
    by (simp_all add: listing_defs example_defs)
  note th = liked_listing [of example_db alice None None ?rows, OF h]
  have a: "\<forall>m n. m < length ?rows \<and> n < length ?rows \<and>
        createdAt (?rows ! n) < createdAt (?rows ! m) \<longrightarrow> m < n"
    by (rule conjunct2 [OF th])
  show ?thesis
    using h v a by - (rule exI [of _ ?rows], intro conjI, assumption+)
qed

section \<open>Pagination\<close>

lemma skip_limit_page:
  assumes "1 \<le> p" and "1 \<le> l" and "p * l < 2 ^ 53"
  shows "skip_limit (js_times (js_minus (to_number p) (Fin 1)) (to_number l)) (to_number l) xs =
           Inr (take (nat l) (drop (nat ((p - 1) * l)) xs))"
proof -
  from assms(1,2) have "p * 1 \<le> p * l" by (intro mult_left_mono) simp_all
  with assms(3) have p: "p < 2 ^ 53" by simp
  from assms(1,2) have "1 * l \<le> p * l" by (intro mult_right_mono) simp_all
  with assms(3) have l: "l < 2 ^ 53" by simp
  have "(p - 1) * l = p * l - l" by (simp add: algebra_simps)
  with assms(2,3) have s: "(p - 1) * l < 2 ^ 53" by simp
  from assms(1,2) have s0: "0 \<le> (p - 1) * l" by simp
  from assms(1) p have "to_number p = Fin p"
    by (simp add: to_number_def round_double_exact)
  moreover from assms(1) p have "round_double (p - 1) = Fin (p - 1)"
    by (simp add: round_double_exact)
  moreover from assms(2) l have tl: "to_number l = Fin l"
    by (simp add: to_number_def round_double_exact)
  moreover from s s0 have "round_double ((p - 1) * l) = Fin ((p - 1) * l)"
    by (intro round_double_exact) simp
  ultimately have skip: "js_times (js_minus (to_number p) (Fin 1)) (Fin l) =
      Fin ((p - 1) * l)"
    by simp
  from s have "(p - 1) * l < 2 ^ 63" by simp
  with s0 have ok_skip: "\<not> ((p - 1) * l < 0 \<or> 2 ^ 63 \<le> (p - 1) * l)" by simp
  from l have "l < 2 ^ 63" by simp
  with assms(2) have ok_limit: "\<not> (l \<le> 0 \<or> 2 ^ 63 \<le> l)" by simp
  show ?thesis
    unfolding tl skip skip_limit_def skip_stage_def limit_stage_def
    by (simp only: ok_skip ok_limit if_False sum.case number.case)
qed

text \<open>
  Claim C3, amended. For a page number of at least 1 and a limit of at least 1, absent
  ones taken as 1 and 10, whose product stays below \<open>2 ^ 53\<close>, where the handler's
  arithmetic on doubles is exact, each of the four listings returns the slice of its
  sorted sequence that skips \<open>(page - 1) * limit\<close> documents and takes at most
  \<open>limit\<close>, so that a page never has more than \<open>limit\<close> documents.
\<close>

theorem listings_paginated:
  assumes "1 \<le> page_of qpage" and "1 \<le> limit_of qlimit"
    and "page_of qpage * limit_of qlimit < 2 ^ 53"
  shows "getTracks db user qpage qlimit =
           Inr (take (nat (limit_of qlimit))
                  (drop (nat ((page_of qpage - 1) * limit_of qlimit)) (getTracks_sorted db user))) \<and>
         getTracksInPlaylist db user i qpage qlimit =
           Inr (take (nat (limit_of qlimit))
                  (drop (nat ((page_of qpage - 1) * limit_of qlimit))
                     (getTracksInPlaylist_sorted db user i))) \<and>
         getTracksLiked db user qpage qlimit =
           Inr (take (nat (limit_of qlimit))
                  (drop (nat ((page_of qpage - 1) * limit_of qlimit))
                     (getTracksLiked_sorted db user))) \<and>
         getTracksByAuthor db user i qpage qlimit =
           Inr (take (nat (limit_of qlimit))
                  (drop (nat ((page_of qpage - 1) * limit_of qlimit))
                     (getTracksByAuthor_sorted db user i))) \<and>
         (\<forall>rows. getTracks db user qpage qlimit = Inr rows
              \<or> getTracksInPlaylist db user i qpage qlimit = Inr rows
              \<or> getTracksByAuthor db user i qpage qlimit = Inr rows \<longrightarrow>
            int (length rows) \<le> limit_of qlimit) \<and>
         (\<forall>rows. getTracksLiked db user qpage qlimit = Inr rows \<longrightarrow>
            int (length rows) \<le> limit_of qlimit) \<and>
         page_of None = 1 \<and> limit_of None = 10 \<and> page_of (Some p) = p \<and> limit_of (Some l) = l"
proof -
  note sl = skip_limit_page [OF assms]
  have g: "getTracks db user qpage qlimit =
           Inr (take (nat (limit_of qlimit))
                  (drop (nat ((page_of qpage - 1) * limit_of qlimit)) (getTracks_sorted db user)))"
    unfolding getTracks_def Let_def by (rule sl)
  have pl: "getTracksInPlaylist db user i qpage qlimit =
           Inr (take (nat (limit_of qlimit))
                  (drop (nat ((page_of qpage - 1) * limit_of qlimit))
                     (getTracksInPlaylist_sorted db user i)))"
    unfolding getTracksInPlaylist_def Let_def by (rule sl)
  have lk: "getTracksLiked db user qpage qlimit =
           Inr (take (nat (limit_of qlimit))
                  (drop (nat ((page_of qpage - 1) * limit_of qlimit))
                     (getTracksLiked_sorted db user)))"
    unfolding getTracksLiked_def Let_def by (rule sl)
  have au: "getTracksByAuthor db user i qpage qlimit =
           Inr (take (nat (limit_of qlimit))
                  (drop (nat ((page_of qpage - 1) * limit_of qlimit))
                     (getTracksByAuthor_sorted db user i)))"
    unfolding getTracksByAuthor_def Let_def by (rule sl)
  have size_ranked: "\<forall>rows. getTracks db user qpage qlimit = Inr rows
              \<or> getTracksInPlaylist db user i qpage qlimit = Inr rows
              \<or> getTracksByAuthor db user i qpage qlimit = Inr rows \<longrightarrow>
            int (length rows) \<le> limit_of qlimit"
    unfolding g pl au using assms(2) by auto
  have size_liked: "\<forall>rows. getTracksLiked db user qpage qlimit = Inr rows \<longrightarrow>
            int (length rows) \<le> limit_of qlimit"
    unfolding lk using assms(2) by auto
  have dflt: "page_of None = 1 \<and> limit_of None = 10 \<and> page_of (Some p) = p \<and>
      limit_of (Some l) = l"
    by (simp add: page_of_def limit_of_def)
  from g pl lk au size_ranked size_liked dflt show ?thesis
    by (intro conjI) (elim conjE, assumption)+
qed

theorem listings_paginated_witness:
  "(1::int) \<le> page_of (Some 2) \<and> (1::int) \<le> limit_of (Some 2) \<and>
   page_of (Some 2) * limit_of (Some 2) < 2 ^ 53 \<and>
   getTracks example_db alice (Some 2) (Some 2) =
     Inr (take 2 (drop 2 (getTracks_sorted example_db alice))) \<and>
   map rid (take 2 (drop 2 (getTracks_sorted example_db alice))) = [10, 12]"
proof -
  have p: "(1::int) \<le> page_of (Some 2)" and l: "(1::int) \<le> limit_of (Some 2)"
    and b: "page_of (Some 2) * limit_of (Some 2) < 2 ^ 53"
    by (simp_all add: page_of_def limit_of_def)
  have v: "map rid (take 2 (drop 2 (getTracks_sorted example_db alice))) = [10, 12]"
    by (simp add: listing_defs example_defs)
  have "getTracks example_db alice (Some 2) (Some 2) =
      Inr (take (nat (limit_of (Some 2)))
             (drop (nat ((page_of (Some 2) - 1) * limit_of (Some 2)))
                (getTracks_sorted example_db alice)))"
    by (rule conjunct1 [OF listings_paginated [OF p l b, of example_db alice]])
  then have g: "getTracks example_db alice (Some 2) (Some 2) =
      Inr (take 2 (drop 2 (getTracks_sorted example_db alice)))"
    by (simp add: page_of_def limit_of_def)
  from p l b g v show ?thesis
    by (intro conjI)
qed

lemma round_double_large: "round_double 99999999990000000000 = Fin 99999999989999992832"
  by code_simp

text \<open>
  The claim as stated, for every page and limit, fails. With page 0 the pipeline holds
  \<^verbatim>\<open>{ $skip: -10 }\<close> and with limit 0 it holds \<^verbatim>\<open>{ $limit: 0 }\<close>. With page and
  limit both \<open>10 ^ 10\<close> the product on doubles is 99999999989999992832, which is not
  \<open>(page - 1) * limit\<close> and is no 64-bit integer. The database rejects the three
  pipelines, so that the listing returns no slice.
\<close>

theorem listings_paginated_counterexample:
  "getTracks example_db alice (Some 0) (Some 10) = Inl StorageError \<and>
   getTracks example_db alice (Some 0) (Some 10) \<noteq>
     Inr (take (nat 10) (drop (nat ((0 - 1) * 10)) (getTracks_sorted example_db alice))) \<and>
   getTracks example_db alice (Some 1) (Some 0) = Inl StorageError \<and>
   getTracks example_db alice (Some 10000000000) (Some 10000000000) = Inl StorageError"
  by (simp add: getTracks_def page_of_def limit_of_def round_double_large to_number_def
      round_double_exact skip_limit_def skip_stage_def limit_stage_def)

section \<open>The author summary\<close>

lemma field_exclude: "k \<in> set ks \<Longrightarrow> field (exclude ks d) k = None"
  unfolding field_def exclude_def by (induction d) auto

lemma set_exclude: "set (exclude ks d) \<subseteq> set d"
  unfolding exclude_def by auto

lemma ranked_author:
  assumes "r \<in> set (getTracks_sorted db user) \<or> r \<in> set (getTracksInPlaylist_sorted db user i)
           \<or> r \<in> set (getTracksByAuthor_sorted db user i)"
  shows "\<exists>t \<in> set (tracks db). \<exists>u \<in> set (users db). rid t = rid r \<and>
           field u ''_id'' = Some (Oid (author t)) \<and> author r = exclude excluded u"
  using assms
  unfolding getTracks_sorted_def getTracksInPlaylist_sorted_def getTracksByAuthor_sorted_def
    set_sort_stage unwind_author_def project_author_def lookup_author_def addFields_liked_def
  by auto blast+

lemma liked_author:
  assumes "r \<in> set (getTracksLiked_sorted db user)"
  shows "\<exists>t \<in> set (tracks db). \<exists>u \<in> set (users db). rid t = rid r \<and>
           field u ''_id'' = Some (Oid (author t)) \<and> author r = exclude excluded u"
  using assms
  unfolding getTracksLiked_sorted_def
    set_sort_stage unwind_author_def project_author_def lookup_author_def addFields_true_def
  by auto blast

lemma skip_limit_subset: "skip_limit s l xs = Inr ys \<Longrightarrow> set ys \<subseteq> set xs"
  by (drule skip_limit_Inr) (auto dest: in_set_takeD in_set_dropD)

lemma field_exclude_other: "k \<notin> set ks \<Longrightarrow> field (exclude ks d) k = field d k"
  unfolding field_def exclude_def by (induction d) auto

lemma summary_fields:
  assumes "author r = exclude excluded u"
  shows "field (author r) ''password'' = None \<and> field (author r) ''email'' = None \<and>
         field (author r) ''followers'' = None \<and> field (author r) ''likedPlaylists'' = None \<and>
         field (author r) ''likedTracks'' = None \<and>
         field (author r) ''passwordResetToken'' = field u ''passwordResetToken'' \<and>
         field (author r) ''passwordResetExpires'' = field u ''passwordResetExpires''"
  unfolding assms by (simp add: field_exclude field_exclude_other excluded_def)

text \<open>
  Claim C4. In a page of any of the four listings the embedded author summary is the
  stored document of the user whom the track names as its author, without the fields
  \<^verbatim>\<open>password\<close>, \<^verbatim>\<open>email\<close>, \<^verbatim>\<open>followers\<close>, \<^verbatim>\<open>likedPlaylists\<close> and
  \<^verbatim>\<open>likedTracks\<close>. The projection names these five fields and no other: the fields
  \<^verbatim>\<open>passwordResetToken\<close> and \<^verbatim>\<open>passwordResetExpires\<close> of the user schema pass into
  the summary as they are stored, so that the summary is not limited to public profile
  fields.
\<close>

theorem author_summary_projected:
  "(getTracks db user qpage qlimit = Inr rows
      \<or> getTracksInPlaylist db user i qpage qlimit = Inr rows
      \<or> getTracksByAuthor db user i qpage qlimit = Inr rows \<longrightarrow>
    (\<forall>r \<in> set rows. \<exists>t \<in> set (tracks db). \<exists>u \<in> set (users db). rid t = rid r \<and>
       field u ''_id'' = Some (Oid (author t)) \<and> author r = exclude excluded u \<and>
       field (author r) ''password'' = None \<and> field (author r) ''email'' = None \<and>
       field (author r) ''followers'' = None \<and> field (author r) ''likedPlaylists'' = None \<and>
       field (author r) ''likedTracks'' = None \<and>
       field (author r) ''passwordResetToken'' = field u ''passwordResetToken'' \<and>
       field (author r) ''passwordResetExpires'' = field u ''passwordResetExpires'')) \<and>
   (getTracksLiked db user qpage qlimit = Inr lrows \<longrightarrow>
    (\<forall>r \<in> set lrows. \<exists>t \<in> set (tracks db). \<exists>u \<in> set (users db). rid t = rid r \<and>
       field u ''_id'' = Some (Oid (author t)) \<and> author r = exclude excluded u \<and>
       field (author r) ''password'' = None \<and> field (author r) ''email'' = None \<and>
       field (author r) ''followers'' = None \<and> field (author r) ''likedPlaylists'' = None \<and>
       field (author r) ''likedTracks'' = None \<and>
       field (author r) ''passwordResetToken'' = field u ''passwordResetToken'' \<and>
       field (author r) ''passwordResetExpires'' = field u ''passwordResetExpires''))"
proof (rule conjI; rule impI; rule ballI)
  fix r
  assume "getTracks db user qpage qlimit = Inr rows
      \<or> getTracksInPlaylist db user i qpage qlimit = Inr rows
      \<or> getTracksByAuthor db user i qpage qlimit = Inr rows"
    and r: "r \<in> set rows"
  then have "r \<in> set (getTracks_sorted db user) \<or> r \<in> set (getTracksInPlaylist_sorted db user i)
           \<or> r \<in> set (getTracksByAuthor_sorted db user i)"
    unfolding getTracks_def getTracksInPlaylist_def getTracksByAuthor_def Let_def
    using skip_limit_subset by blast
  from ranked_author [OF this] obtain t u where tu: "t \<in> set (tracks db)" "u \<in> set (users db)"
      "rid t = rid r" "field u ''_id'' = Some (Oid (author t))" "author r = exclude excluded u"
    by blast
  from summary_fields [OF tu(5)] tu
  show "\<exists>t \<in> set (tracks db). \<exists>u \<in> set (users db). rid t = rid r \<and>
       field u ''_id'' = Some (Oid (author t)) \<and> author r = exclude excluded u \<and>
       field (author r) ''password'' = None \<and> field (author r) ''email'' = None \<and>
       field (author r) ''followers'' = None \<and> field (author r) ''likedPlaylists'' = None \<and>
       field (author r) ''likedTracks'' = None \<and>
       field (author r) ''passwordResetToken'' = field u ''passwordResetToken'' \<and>
       field (author r) ''passwordResetExpires'' = field u ''passwordResetExpires''"
    by blast
next
  fix r
  assume "getTracksLiked db user qpage qlimit = Inr lrows" and r: "r \<in> set lrows"
  then have "r \<in> set (getTracksLiked_sorted db user)"
    unfolding getTracksLiked_def Let_def using skip_limit_subset by blast
  from liked_author [OF this] obtain t u where tu: "t \<in> set (tracks db)" "u \<in> set (users db)"
      "rid t = rid r" "field u ''_id'' = Some (Oid (author t))" "author r = exclude excluded u"
    by blast
  from summary_fields [OF tu(5)] tu
  show "\<exists>t \<in> set (tracks db). \<exists>u \<in> set (users db). rid t = rid r \<and>
       field u ''_id'' = Some (Oid (author t)) \<and> author r = exclude excluded u \<and>
       field (author r) ''password'' = None \<and> field (author r) ''email'' = None \<and>
       field (author r) ''followers'' = None \<and> field (author r) ''likedPlaylists'' = None \<and>
       field (author r) ''likedTracks'' = None \<and>
       field (author r) ''passwordResetToken'' = field u ''passwordResetToken'' \<and>
       field (author r) ''passwordResetExpires'' = field u ''passwordResetExpires''"
    by blast
qed

text \<open>
  The first user of the example has a pending password reset. In the listing of that
  user's tracks the summary has neither password nor email, and it shows the reset
  token, which is no public profile field.
\<close>

theorem author_summary_projected_witness:
  "\<exists>rows. getTracksByAuthor example_db alice 1 (Some 1) (Some 1) = Inr rows \<and>
     rows =
       [\<lparr>rid = 10, name = ''one'', img = ''a.png'',
         author = [(''_id'', Oid 1), (''passwordResetToken'', Str ''5f3c''),
                   (''profile'', Doc [(''name'', Str ''Alice'')])],
         playlist = 100, liked = False, likedLength = 1, createdAt = 1000\<rparr>] \<and>
     field (author (hd rows)) ''password'' = None \<and>
     field (author (hd rows)) ''email'' = None \<and>
     field (author (hd rows)) ''passwordResetToken'' = Some (Str ''5f3c'') \<and>
     ''passwordResetToken'' \<notin> set public_profile_fields"
proof -
  let ?rows = "projr (getTracksByAuthor example_db alice 1 (Some 1) (Some 1))"
  have h: "getTracksByAuthor example_db alice 1 (Some 1) (Some 1) = Inr ?rows"
    by (simp add: listing_defs example_defs)
  have v: "?rows =
       [\<lparr>rid = 10, name = ''one'', img = ''a.png'',
         author = [(''_id'', Oid 1), (''passwordResetToken'', Str ''5f3c''),
                   (''profile'', Doc [(''name'', Str ''Alice'')])],
         playlist = 100, liked = False, likedLength = 1, createdAt = 1000\<rparr>]"
    by (simp add: listing_defs example_defs)
  then have "?rows \<noteq> []" by simp
  then have "hd ?rows \<in> set ?rows" by (rule hd_in_set)
  with author_summary_projected [of example_db alice "Some 1" "Some 1" ?rows 1] h
  have "field (author (hd ?rows)) ''password'' = None \<and>
        field (author (hd ?rows)) ''email'' = None"
    by blast
  then have pw: "field (author (hd ?rows)) ''password'' = None"
    and em: "field (author (hd ?rows)) ''email'' = None"
    by simp_all
  have tok: "field (author (hd ?rows)) ''passwordResetToken'' = Some (Str ''5f3c'')"
    unfolding v by (simp add: field_def)
  have pub: "''passwordResetToken'' \<notin> set public_profile_fields"
    by (simp add: public_profile_fields_def)
  from h v pw em tok pub show ?thesis
    by - (rule exI [of _ ?rows], intro conjI, assumption+)
qed

section \<open>Finding, updating and removing documents\<close>

lemma findById_Some: "findById i ts = Some t \<Longrightarrow> rid t = i \<and> t \<in> set ts"
  unfolding findById_def by (induction ts) (auto split: if_splits)

lemma findById_updateOne:
  assumes "\<And>t. rid (f t) = rid t"
  shows "findById i (updateOne j f ts) =
           (if i = j then map_option f (findById i ts) else findById i ts)"
  unfolding findById_def updateOne_def by (induction ts) (auto simp: assms)

lemma findById_remove:
  "findById i (remove j ts) = (if i = j then None else findById i ts)"
  unfolding findById_def remove_def by (induction ts) auto

lemma findPlaylistById_Some:
  "findPlaylistById i ps = Some p \<Longrightarrow> p_id p = i \<and> p \<in> set ps"
  unfolding findPlaylistById_def by (induction ps) (auto split: if_splits)

lemma findPlaylistById_updatePlaylist:
  assumes "\<And>p. p_id (f p) = p_id p"
  shows "findPlaylistById i (updatePlaylist j f ps) =
           (if i = j then map_option f (findPlaylistById i ps) else findPlaylistById i ps)"
  unfolding findPlaylistById_def updatePlaylist_def by (induction ps) (auto simp: assms)

lemma set_pull: "set (pull x xs) = set xs - {x}"
  unfolding pull_def by auto

lemma set_addToSet: "set (addToSet x xs) = insert x (set xs)"
  unfolding addToSet_def by auto

lemma distinct_pull: "distinct xs \<Longrightarrow> distinct (pull x xs)"
  unfolding pull_def by simp

lemma distinct_addToSet: "distinct xs \<Longrightarrow> distinct (addToSet x xs)"
  unfolding addToSet_def by simp

text \<open>One toggle on an existing track.\<close>

lemma putTrackLike_found:
  assumes "findById i (tracks db) = Some t"
  shows "fst (putTrackLike db user i) = Inr (u_id user \<notin> set (liked t)) \<and>
         (\<exists>t'. findById i (tracks (snd (putTrackLike db user i))) = Some t' \<and>
            set (liked t') =
              (if u_id user \<in> set (liked t) then set (liked t) - {u_id user}
               else insert (u_id user) (set (liked t)))) \<and>
         (\<forall>j. j \<noteq> i \<longrightarrow>
            findById j (tracks (snd (putTrackLike db user i))) = findById j (tracks db)) \<and>
         playlists (snd (putTrackLike db user i)) = playlists db \<and>
         users (snd (putTrackLike db user i)) = users db"
proof -
  from findById_Some [OF assms] have i: "rid t = i" by simp
  show ?thesis
    by (simp add: putTrackLike_def assms i Let_def findById_updateOne set_pull set_addToSet)
qed

lemmas mutation_defs =
  postTrack_def putTrackLike_def deleteTrack_def findById_def findPlaylistById_def
  updateOne_def updatePlaylist_def remove_def pull_def addToSet_def push_def Let_def

section \<open>The like toggle\<close>

text \<open>
  Claim C5. A toggle on a track that does not exist throws \<^verbatim>\<open>'Track not found'\<close> with
  status 404 and leaves the database as it was. On an existing track, one toggle flips
  the requester's membership in the liker array, leaves every other liker in it and
  answers the membership after the toggle; a second toggle brings the set of likers back
  to what it was. No other track changes.
\<close>

theorem putTrackLike_toggle:
  assumes "putTrackLike db user i = (r1, db1)" and "putTrackLike db1 user i = (r2, db2)"
  shows "(findById i (tracks db) = None \<longrightarrow>
            r1 = Inl (ApplicationError ''Track not found'' 404) \<and> db1 = db) \<and>
         (\<forall>t. findById i (tracks db) = Some t \<longrightarrow>
            (\<exists>t1 t2. findById i (tracks db1) = Some t1 \<and> findById i (tracks db2) = Some t2 \<and>
               (u_id user \<in> set (liked t1)) = (u_id user \<notin> set (liked t)) \<and>
               set (liked t1) - {u_id user} = set (liked t) - {u_id user} \<and>
               r1 = Inr (u_id user \<in> set (liked t1)) \<and>
               r2 = Inr (u_id user \<in> set (liked t2)) \<and>
               set (liked t2) = set (liked t)) \<and>
            (\<forall>j. j \<noteq> i \<longrightarrow> findById j (tracks db2) = findById j (tracks db)))"
proof (intro conjI allI impI)
  assume "findById i (tracks db) = None"
  with assms(1) show "r1 = Inl (ApplicationError ''Track not found'' 404)" and "db1 = db"
    by (simp_all add: putTrackLike_def)
next
  fix t
  assume t: "findById i (tracks db) = Some t"
  from putTrackLike_found [OF t, of user] assms(1)
  obtain t1 where r1: "r1 = Inr (u_id user \<notin> set (liked t))"
    and t1: "findById i (tracks db1) = Some t1"
    and s1: "set (liked t1) =
              (if u_id user \<in> set (liked t) then set (liked t) - {u_id user}
               else insert (u_id user) (set (liked t)))"
    and o1: "\<forall>j. j \<noteq> i \<longrightarrow> findById j (tracks db1) = findById j (tracks db)"
    by auto
  from putTrackLike_found [OF t1, of user] assms(2)
  obtain t2 where r2: "r2 = Inr (u_id user \<notin> set (liked t1))"
    and t2: "findById i (tracks db2) = Some t2"
    and s2: "set (liked t2) =
              (if u_id user \<in> set (liked t1) then set (liked t1) - {u_id user}
               else insert (u_id user) (set (liked t1)))"
    and o2: "\<forall>j. j \<noteq> i \<longrightarrow> findById j (tracks db2) = findById j (tracks db1)"
    by auto
  have "(u_id user \<in> set (liked t1)) = (u_id user \<notin> set (liked t)) \<and>
        set (liked t1) - {u_id user} = set (liked t) - {u_id user} \<and>
        r1 = Inr (u_id user \<in> set (liked t1)) \<and>
        r2 = Inr (u_id user \<in> set (liked t2)) \<and>
        set (liked t2) = set (liked t)"
    unfolding r1 r2 s2 s1 by auto
  with t1 t2
  show "\<exists>t1 t2. findById i (tracks db1) = Some t1 \<and> findById i (tracks db2) = Some t2 \<and>
               (u_id user \<in> set (liked t1)) = (u_id user \<notin> set (liked t)) \<and>
               set (liked t1) - {u_id user} = set (liked t) - {u_id user} \<and>
               r1 = Inr (u_id user \<in> set (liked t1)) \<and>
               r2 = Inr (u_id user \<in> set (liked t2)) \<and>
               set (liked t2) = set (liked t)"
    by blast
  fix j
  assume "j \<noteq> i"
  with o1 o2 show "findById j (tracks db2) = findById j (tracks db)" by simp
qed

theorem putTrackLike_toggle_witness:
  "putTrackLike example_db alice 10 = (Inr True, snd (putTrackLike example_db alice 10)) \<and>
   map liked (tracks (snd (putTrackLike example_db alice 10))) = [[2, 1], [1], [], [2, 1]] \<and>
   putTrackLike (snd (putTrackLike example_db alice 10)) alice 10 =
     (Inr False, snd (putTrackLike (snd (putTrackLike example_db alice 10)) alice 10)) \<and>
   map liked (tracks (snd (putTrackLike (snd (putTrackLike example_db alice 10)) alice 10))) =
     [[2], [1], [], [2, 1]] \<and>
   findById 11 (tracks (snd (putTrackLike (snd (putTrackLike example_db alice 10)) alice 10))) =
     findById 11 (tracks example_db)"
proof -
  let ?db1 = "snd (putTrackLike example_db alice 10)"
  let ?db2 = "snd (putTrackLike ?db1 alice 10)"
  have h1: "putTrackLike example_db alice 10 = (Inr True, ?db1)"
    by (simp add: mutation_defs example_defs)
  have v1: "map liked (tracks ?db1) = [[2, 1], [1], [], [2, 1]]"
    by (simp add: mutation_defs example_defs)
  have h2: "putTrackLike ?db1 alice 10 = (Inr False, ?db2)"
    by (simp add: mutation_defs example_defs)
  have v2: "map liked (tracks ?db2) = [[2], [1], [], [2, 1]]"
    by (simp add: mutation_defs example_defs)
  have f: "findById 10 (tracks example_db) =
      Some \<lparr>rid = 10, name = ''one'', img = ''a.png'', author = 1, playlist = 100,
            liked = [2], likedLength = (), createdAt = 1000\<rparr>"
    by (simp add: mutation_defs example_defs)
  note toggled = putTrackLike_toggle [OF h1 h2]
  from conjunct2 [OF toggled, THEN spec, THEN mp, OF f]
  have "\<forall>j. j \<noteq> 10 \<longrightarrow> findById j (tracks ?db2) = findById j (tracks example_db)"
    by (rule conjunct2)
  then have o: "findById 11 (tracks ?db2) = findById 11 (tracks example_db)"
    by simp
  from h1 v1 h2 v2 o show ?thesis
    by (intro conjI)
qed

section \<open>Adding a track to a playlist\<close>

text \<open>
  Claim C6. With a missing or empty name, \<^verbatim>\<open>postTrack\<close> throws
  \<^verbatim>\<open>'Name is not valid'\<close> and leaves the database as it was; with a valid name and a
  playlist that does not exist it throws \<^verbatim>\<open>'Playlist not found'\<close> and leaves the
  database as it was; otherwise it answers the new track, owned by the requester, with
  the playlist's image and no liker, stores it, and appends its identifier to the
  playlist's track sequence. The name is checked first, as the handler does.
\<close>

theorem postTrack_outcomes:
  assumes "postTrack db user i qname new_id now = (res, db')"
  shows "(qname = None \<or> qname = Some [] \<longrightarrow>
            res = Inl (ApplicationError ''Name is not valid'' 404) \<and> db' = db) \<and>
         (\<forall>n. qname = Some n \<and> n \<noteq> [] \<and> findPlaylistById i (playlists db) = None \<longrightarrow>
            res = Inl (ApplicationError ''Playlist not found'' 404) \<and> db' = db) \<and>
         (\<forall>n pl. qname = Some n \<and> n \<noteq> [] \<and> findPlaylistById i (playlists db) = Some pl \<longrightarrow>
            res = Inr \<lparr>rid = new_id, name = n, img = p_img pl, author = u_id user,
                       playlist = i, liked = [], likedLength = (), createdAt = now\<rparr> \<and>
            tracks db' = tracks db @
               [\<lparr>rid = new_id, name = n, img = p_img pl, author = u_id user,
                 playlist = i, liked = [], likedLength = (), createdAt = now\<rparr>] \<and>
            findPlaylistById i (playlists db') = Some (pl\<lparr>p_tracks := p_tracks pl @ [new_id]\<rparr>) \<and>
            (\<forall>j. j \<noteq> i \<longrightarrow> findPlaylistById j (playlists db') = findPlaylistById j (playlists db)) \<and>
            users db' = users db)"
proof (intro conjI allI impI)
  assume "qname = None \<or> qname = Some []"
  with assms show "res = Inl (ApplicationError ''Name is not valid'' 404)" and "db' = db"
    by (auto simp: postTrack_def)
next
  fix n
  assume "qname = Some n \<and> n \<noteq> [] \<and> findPlaylistById i (playlists db) = None"
  with assms show "res = Inl (ApplicationError ''Playlist not found'' 404)" and "db' = db"
    by (auto simp: postTrack_def)
next
  fix n pl
  assume a: "qname = Some n \<and> n \<noteq> [] \<and> findPlaylistById i (playlists db) = Some pl"
  then have pl: "findPlaylistById i (playlists db) = Some pl" by simp
  from findPlaylistById_Some [OF pl] have i: "p_id pl = i" by simp
  from assms a i
  have res: "res = Inr \<lparr>rid = new_id, name = n, img = p_img pl, author = u_id user,
                       playlist = i, liked = [], likedLength = (), createdAt = now\<rparr>"
    and db': "db' = db\<lparr>tracks := tracks db @
               [\<lparr>rid = new_id, name = n, img = p_img pl, author = u_id user,
                 playlist = i, liked = [], likedLength = (), createdAt = now\<rparr>],
             playlists := updatePlaylist i (\<lambda>p. p\<lparr>p_tracks := push new_id (p_tracks p)\<rparr>)
                (playlists db)\<rparr>"
    by (auto simp: postTrack_def Let_def)
  show "res = Inr \<lparr>rid = new_id, name = n, img = p_img pl, author = u_id user,
                       playlist = i, liked = [], likedLength = (), createdAt = now\<rparr>"
    by (rule res)
  show "tracks db' = tracks db @
               [\<lparr>rid = new_id, name = n, img = p_img pl, author = u_id user,
                 playlist = i, liked = [], likedLength = (), createdAt = now\<rparr>]"
    unfolding db' by simp
  show "findPlaylistById i (playlists db') = Some (pl\<lparr>p_tracks := p_tracks pl @ [new_id]\<rparr>)"
    unfolding db' by (simp add: findPlaylistById_updatePlaylist pl push_def)
  show "users db' = users db"
    unfolding db' by simp
  fix j
  assume "j \<noteq> i"
  then show "findPlaylistById j (playlists db') = findPlaylistById j (playlists db)"
    unfolding db' by (simp add: findPlaylistById_updatePlaylist)
qed

theorem postTrack_outcomes_witness:
  "postTrack example_db alice 100 (Some ''five'') 14 4000 =
     (Inr \<lparr>rid = 14, name = ''five'', img = ''a.png'', author = 1, playlist = 100,
           liked = [], likedLength = (), createdAt = 4000\<rparr>,
      snd (postTrack example_db alice 100 (Some ''five'') 14 4000)) \<and>
   map rid (tracks (snd (postTrack example_db alice 100 (Some ''five'') 14 4000))) =
     [10, 11, 12, 13, 14] \<and>
   map p_tracks (playlists (snd (postTrack example_db alice 100 (Some ''five'') 14 4000))) =
     [[10, 11, 13, 14], [12]] \<and>
   postTrack example_db alice 100 (Some []) 14 4000 =
     (Inl (ApplicationError ''Name is not valid'' 404), example_db) \<and>
   postTrack example_db alice 100 None 14 4000 =
     (Inl (ApplicationError ''Name is not valid'' 404), example_db) \<and>
   postTrack example_db alice 999 (Some ''five'') 14 4000 =
     (Inl (ApplicationError ''Playlist not found'' 404), example_db)"
proof -
  let ?out = "postTrack example_db alice 100 (Some ''five'') 14 4000"
  have h: "?out = (fst ?out, snd ?out)" by simp
  have pl: "Some ''five'' = Some ''five'' \<and> ''five'' \<noteq> [] \<and>
      findPlaylistById 100 (playlists example_db) =
        Some \<lparr>p_id = 100, p_img = ''a.png'', p_tracks = [10, 11, 13]\<rparr>"
    by (simp add: findPlaylistById_def example_defs)
  note created = conjunct2 [OF conjunct2 [OF postTrack_outcomes [OF h]], THEN spec, THEN spec,
    THEN mp, OF pl]
  from conjunct1 [OF created]
  have r: "fst ?out = Inr \<lparr>rid = 14, name = ''five'', img = ''a.png'', author = 1,
      playlist = 100, liked = [], likedLength = (), createdAt = 4000\<rparr>"
    by (simp add: alice_def)
  have a: "?out = (Inr \<lparr>rid = 14, name = ''five'', img = ''a.png'', author = 1,
      playlist = 100, liked = [], likedLength = (), createdAt = 4000\<rparr>, snd ?out)"
    using r by (simp add: prod_eq_iff)
  have b: "map rid (tracks (snd ?out)) = [10, 11, 12, 13, 14]"
    by (simp add: mutation_defs example_defs)
  have c: "map p_tracks (playlists (snd ?out)) = [[10, 11, 13, 14], [12]]"
    by (simp add: mutation_defs example_defs)
  have d: "postTrack example_db alice 100 (Some []) 14 4000 =
     (Inl (ApplicationError ''Name is not valid'' 404), example_db)"
    by (simp add: postTrack_def)
  have e: "postTrack example_db alice 100 None 14 4000 =
     (Inl (ApplicationError ''Name is not valid'' 404), example_db)"
    by (simp add: postTrack_def)
  have f: "postTrack example_db alice 999 (Some ''five'') 14 4000 =
     (Inl (ApplicationError ''Playlist not found'' 404), example_db)"
    by (simp add: mutation_defs example_defs)
  from a b c d e f show ?thesis
    by (intro conjI)
qed

section \<open>Deleting a track\<close>

text \<open>
  Claim C7. What \<^verbatim>\<open>deleteTrack\<close> does. On a track that does not exist it throws with
  status 404. For a requester who is not an administrator it throws
  \<^verbatim>\<open>'Dont have permission'\<close> with status 403, whoever the track's author is: the
  handler compares the author and the requester as objects, so that the track's own
  author is refused like everybody else. In both cases the database is left as it was.
  For an administrator it answers the track as it was stored and removes it; no other
  track changes. The claim lets the author delete; the handler does not.
\<close>

theorem deleteTrack_refuses_author:
  assumes "deleteTrack db user i = (res, db')"
  shows "(findById i (tracks db) = None \<longrightarrow>
            (\<exists>message. res = Inl (ApplicationError message 404)) \<and> db' = db) \<and>
         (\<forall>t. findById i (tracks db) = Some t \<and> role user \<noteq> ''ADMIN'' \<longrightarrow>
            res = Inl (ApplicationError ''Dont have permission'' 403) \<and> db' = db) \<and>
         (\<forall>t. findById i (tracks db) = Some t \<and> role user = ''ADMIN'' \<longrightarrow>
            res = Inr t \<and> findById i (tracks db') = None \<and>
            (\<forall>j. j \<noteq> i \<longrightarrow> findById j (tracks db') = findById j (tracks db)) \<and>
            playlists db' = playlists db \<and> users db' = users db)"
proof (intro conjI allI impI)
  assume "findById i (tracks db) = None"
  with assms show "\<exists>message. res = Inl (ApplicationError message 404)" and "db' = db"
    by (auto simp: deleteTrack_def)
next
  fix t
  assume "findById i (tracks db) = Some t \<and> role user \<noteq> ''ADMIN''"
  with assms show "res = Inl (ApplicationError ''Dont have permission'' 403)" and "db' = db"
    by (auto simp: deleteTrack_def not_same_object_def)
next
  fix t
  assume a: "findById i (tracks db) = Some t \<and> role user = ''ADMIN''"
  then have t: "findById i (tracks db) = Some t" by simp
  from findById_Some [OF t] have i: "rid t = i" by simp
  from assms a i have res: "res = Inr t" and db': "db' = db\<lparr>tracks := remove i (tracks db)\<rparr>"
    by (auto simp: deleteTrack_def)
  show "res = Inr t" by (rule res)
  show "findById i (tracks db') = None"
    unfolding db' by (simp add: findById_remove)
  show "playlists db' = playlists db" and "users db' = users db"
    unfolding db' by simp_all
  fix j
  assume "j \<noteq> i"
  then show "findById j (tracks db') = findById j (tracks db)"
    unfolding db' by (simp add: findById_remove)
qed

text \<open>
  In the example the requester is the author of track 10 and no administrator: the
  delete is refused and the track stays.
\<close>

theorem deleteTrack_refuses_author_witness:
  "findById 10 (tracks example_db) =
     Some \<lparr>rid = 10, name = ''one'', img = ''a.png'', author = 1, playlist = 100,
           liked = [2], likedLength = (), createdAt = 1000\<rparr> \<and>
   u_id alice = 1 \<and> role alice = ''USER'' \<and>
   deleteTrack example_db alice 10 =
     (Inl (ApplicationError ''Dont have permission'' 403), example_db) \<and>
   deleteTrack example_db (alice\<lparr>role := ''ADMIN''\<rparr>) 11 =
     (Inr \<lparr>rid = 11, name = ''two'', img = ''a.png'', author = 2, playlist = 100,
           liked = [1], likedLength = (), createdAt = 2000\<rparr>,
      example_db\<lparr>tracks := remove 11 (tracks example_db)\<rparr>) \<and>
   map rid (remove 11 (tracks example_db)) = [10, 12, 13]"
proof -
  let ?out = "deleteTrack example_db alice 10"
  have h: "?out = (fst ?out, snd ?out)" by simp
  have f: "findById 10 (tracks example_db) =
     Some \<lparr>rid = 10, name = ''one'', img = ''a.png'', author = 1, playlist = 100,
           liked = [2], likedLength = (), createdAt = 1000\<rparr>"
    by (simp add: findById_def example_defs)
  have u: "u_id alice = 1" and r: "role alice = ''USER''"
    by (simp_all add: alice_def)
  from f r have t: "findById 10 (tracks example_db) =
     Some \<lparr>rid = 10, name = ''one'', img = ''a.png'', author = 1, playlist = 100,
           liked = [2], likedLength = (), createdAt = 1000\<rparr> \<and> role alice \<noteq> ''ADMIN''"
    by simp
  note refused = conjunct1 [OF conjunct2 [OF deleteTrack_refuses_author [OF h]], THEN spec,
    THEN mp, OF t]
  then have a: "?out = (Inl (ApplicationError ''Dont have permission'' 403), example_db)"
    by (simp add: prod_eq_iff)
  have b: "deleteTrack example_db (alice\<lparr>role := ''ADMIN''\<rparr>) 11 =
     (Inr \<lparr>rid = 11, name = ''two'', img = ''a.png'', author = 2, playlist = 100,
           liked = [1], likedLength = (), createdAt = 2000\<rparr>,
      example_db\<lparr>tracks := remove 11 (tracks example_db)\<rparr>)"
    by (simp add: deleteTrack_def findById_def example_defs)
  have c: "map rid (remove 11 (tracks example_db)) = [10, 12, 13]"
    by (simp add: remove_def example_defs)
  from f u r a b c show ?thesis
    by (intro conjI)
qed

text \<open>
  Claim C10. \<^verbatim>\<open>deleteTrack\<close> on an identifier that names no track throws the message
  \<^verbatim>\<open>'Playlist not found'\<close> with status 404 and leaves the database as it was.
\<close>

theorem deleteTrack_not_found:
  assumes "findById i (tracks db) = None"
  shows "deleteTrack db user i = (Inl (ApplicationError ''Playlist not found'' 404), db)"
  using assms by (simp add: deleteTrack_def)

theorem deleteTrack_not_found_witness:
  "findById 99 (tracks example_db) = None \<and>
   deleteTrack example_db alice 99 =
     (Inl (ApplicationError ''Playlist not found'' 404), example_db)"
proof -
  have h: "findById 99 (tracks example_db) = None"
    by (simp add: findById_def example_defs)
  from h deleteTrack_not_found [OF h, of alice] show ?thesis
    by (intro conjI)
qed

section \<open>The liker array as a set\<close>

text \<open>
  Claim C8. When no track of the database stores a liker twice, none does after
  \<^verbatim>\<open>postTrack\<close>, after \<^verbatim>\<open>putTrackLike\<close> or after \<^verbatim>\<open>deleteTrack\<close>. A created
  track has no liker; \<^verbatim>\<open>$addToSet\<close> adds the requester and \<^verbatim>\<open>$pull\<close> removes the
  requester, and both keep an array free of duplicates.
\<close>

theorem liker_set_invariant:
  assumes "\<forall>t \<in> set (tracks db). distinct (liked t)"
  shows "(\<forall>t \<in> set (tracks (snd (postTrack db user i qname new_id now))). distinct (liked t)) \<and>
         (\<forall>t \<in> set (tracks (snd (putTrackLike db user i))). distinct (liked t)) \<and>
         (\<forall>t \<in> set (tracks (snd (deleteTrack db user i))). distinct (liked t)) \<and>
         (\<forall>t. fst (postTrack db user i qname new_id now) = Inr t \<longrightarrow> liked t = []) \<and>
         (\<forall>x xs. distinct xs \<longrightarrow>
            distinct (addToSet (x::oid) xs) \<and> set (addToSet x xs) = insert x (set xs) \<and>
            distinct (pull x xs) \<and> set (pull x xs) = set xs - {x})"
proof (intro conjI)
  show "\<forall>t \<in> set (tracks (snd (postTrack db user i qname new_id now))). distinct (liked t)"
    using assms by (auto simp: postTrack_def Let_def split: option.splits if_splits)
  show "\<forall>t \<in> set (tracks (snd (putTrackLike db user i))). distinct (liked t)"
    using assms
    by (auto simp: putTrackLike_def Let_def updateOne_def distinct_pull distinct_addToSet
        split: option.splits if_splits)
  show "\<forall>t \<in> set (tracks (snd (deleteTrack db user i))). distinct (liked t)"
    using assms by (auto simp: deleteTrack_def remove_def split: option.splits if_splits)
  show "\<forall>t. fst (postTrack db user i qname new_id now) = Inr t \<longrightarrow> liked t = []"
    by (auto simp: postTrack_def Let_def split: option.splits if_splits)
  show "\<forall>x xs. distinct xs \<longrightarrow>
            distinct (addToSet (x::oid) xs) \<and> set (addToSet x xs) = insert x (set xs) \<and>
            distinct (pull x xs) \<and> set (pull x xs) = set xs - {x}"
    by (simp add: distinct_pull distinct_addToSet set_pull set_addToSet)
qed

theorem liker_set_invariant_witness:
  "map liked (tracks example_db) = [[2], [1], [], [2, 1]] \<and>
   map liked (tracks (snd (putTrackLike example_db alice 13))) = [[2], [1], [], [2]] \<and>
   list_all (\<lambda>t. distinct (liked t)) (tracks (snd (putTrackLike example_db alice 13)))"
proof -
  have a: "map liked (tracks example_db) = [[2], [1], [], [2, 1]]"
    by (simp add: example_defs)
  have inv: "\<forall>t \<in> set (tracks example_db). distinct (liked t)"
    by (simp add: example_defs)
  have b: "map liked (tracks (snd (putTrackLike example_db alice 13))) = [[2], [1], [], [2]]"
    by (simp add: mutation_defs example_defs)
  from conjunct1 [OF conjunct2 [OF liker_set_invariant [OF inv, of alice 13]]]
  have c: "list_all (\<lambda>t. distinct (liked t)) (tracks (snd (putTrackLike example_db alice 13)))"
    by (simp only: list_all_iff)
  from a b c show ?thesis
    by (intro conjI)
qed

section \<open>The avatar\<close>

text \<open>
  Claim C9. For a user with no email (absent or empty) \<^verbatim>\<open>gravatar\<close> answers the
  fallback address, which holds the size and no digest: it is the same whatever the
  digest function is. For a user with an email it answers the address that holds the
  digest of the email as it is stored and the size; two emails get the same address
  exactly when their digests are equal. The size is shown as the template string
  renders it, and as 200 when none is given.
\<close>

theorem gravatar_url:
  "(email = None \<or> email = Some [] \<longrightarrow>
      gravatar md5hex to_string email qsize =
        ''https://gravatar.com/avatar/?s=''
          @ (case qsize of None \<Rightarrow> ''200'' | Some s \<Rightarrow> to_string s) @ ''&d=retro'' \<and>
      gravatar md5hex to_string email qsize = gravatar other_md5hex to_string email qsize) \<and>
   (\<forall>e. email = Some e \<and> e \<noteq> [] \<longrightarrow>
      gravatar md5hex to_string email qsize =
        ''https://gravatar.com/avatar/'' @ md5hex e @ ''?s=''
          @ (case qsize of None \<Rightarrow> ''200'' | Some s \<Rightarrow> to_string s) @ ''&d=retro'') \<and>
   (\<forall>e e'. e \<noteq> [] \<and> e' \<noteq> [] \<longrightarrow>
      (gravatar md5hex to_string (Some e) qsize = gravatar md5hex to_string (Some e') qsize) =
      (md5hex e = md5hex e'))"
proof (intro conjI allI impI)
  assume "email = None \<or> email = Some []"
  then show "gravatar md5hex to_string email qsize =
        ''https://gravatar.com/avatar/?s=''
          @ (case qsize of None \<Rightarrow> ''200'' | Some s \<Rightarrow> to_string s) @ ''&d=retro''"
    and "gravatar md5hex to_string email qsize = gravatar other_md5hex to_string email qsize"
    by (auto simp: gravatar_def)
next
  fix e
  assume "email = Some e \<and> e \<noteq> []"
  then show "gravatar md5hex to_string email qsize =
        ''https://gravatar.com/avatar/'' @ md5hex e @ ''?s=''
          @ (case qsize of None \<Rightarrow> ''200'' | Some s \<Rightarrow> to_string s) @ ''&d=retro''"
    by (auto simp: gravatar_def)
next
  fix e e' :: string
  assume "e \<noteq> [] \<and> e' \<noteq> []"
  then show "(gravatar md5hex to_string (Some e) qsize =
      gravatar md5hex to_string (Some e') qsize) = (md5hex e = md5hex e')"
    by (simp add: gravatar_def)
qed

theorem gravatar_url_witness:
  "gravatar md5_sample size_sample (Some ''alice@example.org'') None =
     ''https://gravatar.com/avatar/fbf7c6aec1d4280b7c2704c1c0478bd6?s=200&d=retro'' \<and>
   gravatar md5_sample size_sample (Some ''alice@example.org'') (Some 64) =
     ''https://gravatar.com/avatar/fbf7c6aec1d4280b7c2704c1c0478bd6?s=64&d=retro'' \<and>
   gravatar md5_sample size_sample (Some ''Alice@example.org'') None \<noteq>
     gravatar md5_sample size_sample (Some ''alice@example.org'') None \<and>
   gravatar md5_sample size_sample None (Some 64) = ''https://gravatar.com/avatar/?s=64&d=retro'' \<and>
   gravatar md5_sample size_sample (Some []) None = ''https://gravatar.com/avatar/?s=200&d=retro''"
proof -
  note url = gravatar_url [of "Some ''alice@example.org''" md5_sample size_sample None]
  have e: "Some ''alice@example.org'' = Some ''alice@example.org'' \<and> ''alice@example.org'' \<noteq> []"
    by simp
  from conjunct1 [OF conjunct2 [OF url], THEN spec, THEN mp, OF e]
  have a: "gravatar md5_sample size_sample (Some ''alice@example.org'') None =
     ''https://gravatar.com/avatar/fbf7c6aec1d4280b7c2704c1c0478bd6?s=200&d=retro''"
    by (simp add: md5_sample_def)
  have a': "gravatar md5_sample size_sample (Some ''alice@example.org'') (Some 64) =
     ''https://gravatar.com/avatar/fbf7c6aec1d4280b7c2704c1c0478bd6?s=64&d=retro''"
    by (simp add: gravatar_def md5_sample_def size_sample_def)
  have ne: "''Alice@example.org'' \<noteq> [] \<and> ''alice@example.org'' \<noteq> []"
    by simp
  from conjunct2 [OF conjunct2 [OF url], THEN spec, THEN spec, THEN mp, OF ne]
  have b: "gravatar md5_sample size_sample (Some ''Alice@example.org'') None \<noteq>
     gravatar md5_sample size_sample (Some ''alice@example.org'') None"
    by (simp add: md5_sample_def)
  have c: "gravatar md5_sample size_sample None (Some 64) =
     ''https://gravatar.com/avatar/?s=64&d=retro''"
    by (simp add: gravatar_def size_sample_def)
  have d: "gravatar md5_sample size_sample (Some []) None =
     ''https://gravatar.com/avatar/?s=200&d=retro''"
    by (simp add: gravatar_def)
  from a a' b c d show ?thesis
    by (intro conjI)
qed

end
